theory Spec2Isabelle
  imports Main "HOL-Library.Word"
begin

unbundle bit_operations_syntax

section \<open>Python text\<close>

text \<open>
  The client is one Python module, \<^verbatim>\<open>ai_client.py\<close>. A Python \<^verbatim>\<open>str\<close> is modelled as a
  \<^typ>\<open>string\<close> whose characters are the code points U+0000 to U+00FF; the built-in
  methods below are those of \<^verbatim>\<open>str\<close> on that range.
\<close>

type_synonym u8 = "8 word"
type_synonym u32 = "32 word"
type_synonym u64 = "64 word"

text \<open>\<^verbatim>\<open>str.isspace\<close> of one character: TAB, LF, VT, FF, CR, FS, GS, RS, US, space, NEL, NBSP.\<close>

definition isspace :: "char \<Rightarrow> bool" where
  "isspace ch = (of_char ch \<in> {9, 10, 11, 12, 13, 28, 29, 30, 31, 32, 133, 160 :: nat})"

text \<open>\<^verbatim>\<open>s.strip()\<close>: leading and trailing whitespace removed.\<close>

definition strip :: "string \<Rightarrow> string" where
  "strip s = rev (dropWhile isspace (rev (dropWhile isspace s)))"

text \<open>\<^verbatim>\<open>s.lower()\<close>: A to Z, and the upper-case letters of U+00C0 to U+00DE (not the
  multiplication sign U+00D7), move up by 32.\<close>

definition lower_char :: "char \<Rightarrow> char" where
  "lower_char ch =
     (let n = of_char ch :: nat
      in if (65 \<le> n \<and> n \<le> 90) \<or> (192 \<le> n \<and> n \<le> 222 \<and> n \<noteq> 215) then char_of (n + 32) else ch)"

definition lower :: "string \<Rightarrow> string" where
  "lower s = map lower_char s"

text \<open>\<^verbatim>\<open>str(i)\<close> of an integer, as an f-string renders it: decimal digits, a minus sign first
  when negative.\<close>

fun digits :: "nat \<Rightarrow> string" where
  "digits n = (if n < 10 then [char_of (48 + n)] else digits (n div 10) @ [char_of (48 + n mod 10)])"

declare digits.simps [simp del]

definition str_int :: "int \<Rightarrow> string" where
  "str_int i = (if i < 0 then CHR ''-'' # digits (nat (- i)) else digits (nat i))"

text \<open>\<^verbatim>\<open>s.encode()\<close>: UTF-8, one byte below U+0080 and two bytes from there to U+00FF.\<close>

definition encode_char :: "char \<Rightarrow> u8 list" where
  "encode_char ch =
     (let n = of_char ch :: nat
      in if n < 128 then [word_of_nat n] else [word_of_nat (192 + n div 64), word_of_nat (128 + n mod 64)])"

definition encode :: "string \<Rightarrow> u8 list" where
  "encode s = concat (map encode_char s)"

section \<open>\<^verbatim>\<open>hashlib.md5(...).hexdigest()\<close>\<close>

text \<open>MD5 as RFC 1321 defines it: the per-step left rotations, and the sine table
  \<open>floor (2^32 * |sin (i + 1)|)\<close>.\<close>

definition md5_shifts :: "nat list" where
  "md5_shifts =
     [7, 12, 17, 22, 7, 12, 17, 22, 7, 12, 17, 22, 7, 12, 17, 22,
      5, 9, 14, 20, 5, 9, 14, 20, 5, 9, 14, 20, 5, 9, 14, 20,
      4, 11, 16, 23, 4, 11, 16, 23, 4, 11, 16, 23, 4, 11, 16, 23,
      6, 10, 15, 21, 6, 10, 15, 21, 6, 10, 15, 21, 6, 10, 15, 21]"

definition md5_sines :: "u32 list" where
  "md5_sines =
     [0xd76aa478, 0xe8c7b756, 0x242070db, 0xc1bdceee,
      0xf57c0faf, 0x4787c62a, 0xa8304613, 0xfd469501,
      0x698098d8, 0x8b44f7af, 0xffff5bb1, 0x895cd7be,
      0x6b901122, 0xfd987193, 0xa679438e, 0x49b40821,
      0xf61e2562, 0xc040b340, 0x265e5a51, 0xe9b6c7aa,
      0xd62f105d, 0x02441453, 0xd8a1e681, 0xe7d3fbc8,
      0x21e1cde6, 0xc33707d6, 0xf4d50d87, 0x455a14ed,
      0xa9e3e905, 0xfcefa3f8, 0x676f02d9, 0x8d2a4c8a,
      0xfffa3942, 0x8771f681, 0x6d9d6122, 0xfde5380c,
      0xa4beea44, 0x4bdecfa9, 0xf6bb4b60, 0xbebfbc70,
      0x289b7ec6, 0xeaa127fa, 0xd4ef3085, 0x04881d05,
      0xd9d4d039, 0xe6db99e5, 0x1fa27cf8, 0xc4ac5665,
      0xf4292244, 0x432aff97, 0xab9423a7, 0xfc93a039,
      0x655b59c3, 0x8f0ccc92, 0xffeff47d, 0x85845dd1,
      0x6fa87e4f, 0xfe2ce6e0, 0xa3014314, 0x4e0811a1,
      0xf7537e82, 0xbd3af235, 0x2ad7d2bb, 0xeb86d391]"

definition rotl32 :: "u32 \<Rightarrow> nat \<Rightarrow> u32" where
  "rotl32 x n = push_bit n x OR drop_bit (32 - n) x"

definition md5_mix :: "nat \<Rightarrow> u32 \<Rightarrow> u32 \<Rightarrow> u32 \<Rightarrow> u32" where
  "md5_mix i b c d =
     (if i < 16 then (b AND c) OR (NOT b AND d)
      else if i < 32 then (d AND b) OR (NOT d AND c)
      else if i < 48 then b XOR c XOR d
      else c XOR (b OR NOT d))"

definition md5_index :: "nat \<Rightarrow> nat" where
  "md5_index i =
     (if i < 16 then i
      else if i < 32 then (5 * i + 1) mod 16
      else if i < 48 then (3 * i + 5) mod 16
      else (7 * i) mod 16)"

fun md5_step :: "u32 list \<Rightarrow> nat \<Rightarrow> u32 \<times> u32 \<times> u32 \<times> u32 \<Rightarrow> u32 \<times> u32 \<times> u32 \<times> u32" where
  "md5_step m i (a, b, c, d) =
     (d, b + rotl32 (md5_mix i b c d + a + md5_sines ! i + m ! md5_index i) (md5_shifts ! i), b, c)"

fun le_word32 :: "u8 list \<Rightarrow> u32" where
  "le_word32 [] = 0"
| "le_word32 (b # bs) = ucast b OR push_bit 8 (le_word32 bs)"

fun chunks :: "nat \<Rightarrow> 'a list \<Rightarrow> 'a list list" where
  "chunks n xs = (if n = 0 \<or> xs = [] then [] else take n xs # chunks n (drop n xs))"

declare chunks.simps [simp del]

fun md5_block :: "u32 \<times> u32 \<times> u32 \<times> u32 \<Rightarrow> u8 list \<Rightarrow> u32 \<times> u32 \<times> u32 \<times> u32" where
  "md5_block (a0, b0, c0, d0) block =
     (case fold (md5_step (map le_word32 (chunks 4 block))) [0..<64] (a0, b0, c0, d0) of
        (a, b, c, d) \<Rightarrow> (a0 + a, b0 + b, c0 + c, d0 + d))"

definition le_bytes32 :: "u32 \<Rightarrow> u8 list" where
  "le_bytes32 w = map (\<lambda>i. ucast (drop_bit (8 * i) w)) [0..<4]"

definition le_bytes64 :: "u64 \<Rightarrow> u8 list" where
  "le_bytes64 w = map (\<lambda>i. ucast (drop_bit (8 * i) w)) [0..<8]"

text \<open>Padding: the byte 0x80, zero bytes up to 56 modulo 64, then the length in bits as
  64 bits, little-endian.\<close>

definition md5_pad :: "u8 list \<Rightarrow> u8 list" where
  "md5_pad bs =
     bs @ [0x80] @ replicate ((119 - length bs mod 64) mod 64) 0
        @ le_bytes64 (word_of_nat (8 * length bs))"

definition hex_digit :: "nat \<Rightarrow> char" where
  "hex_digit n = ''0123456789abcdef'' ! (n mod 16)"

definition hex_byte :: "u8 \<Rightarrow> string" where
  "hex_byte b = [hex_digit (unat b div 16), hex_digit (unat b)]"

definition md5_hexdigest :: "u8 list \<Rightarrow> string" where
  "md5_hexdigest bs =
     (case fold (\<lambda>blk st. md5_block st blk) (chunks 64 (md5_pad bs))
             (0x67452301, 0xefcdab89, 0x98badcfe, 0x10325476) of
        (a, b, c, d) \<Rightarrow> concat (map hex_byte (concat (map le_bytes32 [a, b, c, d]))))"

section \<open>Values, errors and the network\<close>

text \<open>What \<^verbatim>\<open>response.json()\<close> returns and what a request's \<^verbatim>\<open>json=\<close> argument holds:
  \<^verbatim>\<open>None\<close>, a bool, a number, a str, a list or a dict with str keys (an association list,
  read with \<^const>\<open>map_of\<close>). The client never inspects a number.\<close>

datatype json_value =
    JNull
  | JBool bool
  | JNum int
  | JStr string
  | JArr "json_value list"
  | JObj "(string \<times> json_value) list"

text \<open>The exceptions the module can raise: those of \<^verbatim>\<open>httpx\<close> (a transport failure or
  timeout of \<^verbatim>\<open>client.post\<close>, \<^verbatim>\<open>raise_for_status\<close>), of \<^verbatim>\<open>response.json()\<close>, and of
  subscripting and method lookup.\<close>

datatype error =
    TransportError
  | HTTPStatusError nat
  | JSONDecodeError
  | KeyError
  | IndexError
  | TypeError
  | AttributeError

text \<open>\<^verbatim>\<open>v[k]\<close> for a str \<open>k\<close>, and \<^verbatim>\<open>v[0]\<close>.\<close>

fun getitem_key :: "json_value \<Rightarrow> string \<Rightarrow> error + json_value" where
  "getitem_key (JObj kvs) k = (case map_of kvs k of None \<Rightarrow> Inl KeyError | Some v \<Rightarrow> Inr v)"
| "getitem_key v k = Inl TypeError"

fun getitem_0 :: "json_value \<Rightarrow> error + json_value" where
  "getitem_0 (JArr []) = Inl IndexError"
| "getitem_0 (JArr (x # xs)) = Inr x"
| "getitem_0 (JStr []) = Inl IndexError"
| "getitem_0 (JStr (ch # s)) = Inr (JStr [ch])"
| "getitem_0 (JObj kvs) = Inl KeyError"
| "getitem_0 v = Inl TypeError"

text \<open>A raised exception ends the expression: the next step runs on a value only.\<close>

fun and_then :: "error + 'a \<Rightarrow> ('a \<Rightarrow> error + 'b) \<Rightarrow> error + 'b" where
  "and_then (Inl e) f = Inl e"
| "and_then (Inr v) f = f v"

record http_request =
  url :: string
  headers :: "(string \<times> string) list"
  json :: json_value
  timeout :: nat

text \<open>What the provider does with a request: the connection fails or times out, or a
  response comes back with a status code and a body, \<open>None\<close> when the body is not JSON.
  The network is any function of the number of requests sent before and the request.\<close>

datatype http_reply = ConnectFailed | Reply nat "json_value option"

type_synonym network = "nat \<Rightarrow> http_request \<Rightarrow> http_reply"

text \<open>The module's globals read from the environment at import.\<close>

record config =
  AI_PROVIDER :: string
  ANTHROPIC_API_KEY :: string
  OPENAI_API_KEY :: string

text \<open>The mutable state: \<^verbatim>\<open>_ai_cache\<close>, and the requests posted so far. The coroutines
  are modelled as run one after the other: each call takes the state and returns what it
  returns or raises, with the state it leaves.\<close>

record state =
  ai_cache :: "string \<rightharpoonup> json_value"
  posts :: "http_request list"

section \<open>The provider adapters\<close>

text \<open>\<^verbatim>\<open>client.post\<close>, \<^verbatim>\<open>response.raise_for_status()\<close> (any status outside 200 to 299 raises)
  and \<^verbatim>\<open>response.json()\<close>.\<close>

definition post_json :: "network \<Rightarrow> http_request \<Rightarrow> state \<Rightarrow> (error + json_value) \<times> state" where
  "post_json net req s =
     (let s' = s\<lparr>posts := posts s @ [req]\<rparr>
      in case net (length (posts s)) req of
           ConnectFailed \<Rightarrow> (Inl TransportError, s')
         | Reply status body \<Rightarrow>
             if \<not> (200 \<le> status \<and> status < 300) then (Inl (HTTPStatusError status), s')
             else (case body of None \<Rightarrow> (Inl JSONDecodeError, s') | Some data \<Rightarrow> (Inr data, s')))"

definition claude_request :: "config \<Rightarrow> string \<Rightarrow> string \<Rightarrow> http_request" where
  "claude_request cfg prompt context =
     \<lparr>url = ''https://api.anthropic.com/v1/messages'',
      headers = [(''x-api-key'', ANTHROPIC_API_KEY cfg),
                 (''anthropic-version'', ''2023-06-01''),
                 (''content-type'', ''application/json'')],
      json = JObj [(''model'', JStr ''claude-3-haiku-20240307''),
                   (''max_tokens'', JNum 1024),
                   (''messages'', JArr [JObj [(''role'', JStr ''user''),
                      (''content'', JStr (if context \<noteq> [] then prompt @ ''\<newline>\<newline>Context: '' @ context
                                          else prompt))]])],
      timeout = 30\<rparr>"

definition call_claude :: "config \<Rightarrow> network \<Rightarrow> string \<Rightarrow> string \<Rightarrow> state \<Rightarrow> (error + json_value) \<times> state" where
  "call_claude cfg net prompt context s =
     (case post_json net (claude_request cfg prompt context) s of
        (Inl e, s') \<Rightarrow> (Inl e, s')
      | (Inr data, s') \<Rightarrow>
          (and_then (and_then (getitem_key data ''content'') getitem_0) (\<lambda>v. getitem_key v ''text''), s'))"

definition openai_request :: "config \<Rightarrow> string \<Rightarrow> string \<Rightarrow> http_request" where
  "openai_request cfg prompt context =
     \<lparr>url = ''https://api.openai.com/v1/chat/completions'',
      headers = [(''Authorization'', ''Bearer '' @ OPENAI_API_KEY cfg),
                 (''Content-Type'', ''application/json'')],
      json = JObj [(''model'', JStr ''gpt-3.5-turbo''),
                   (''messages'', JArr [JObj [(''role'', JStr ''user''),
                      (''content'', JStr (if context \<noteq> [] then prompt @ ''\<newline>\<newline>Context: '' @ context
                                          else prompt))]]),
                   (''max_tokens'', JNum 1024)],
      timeout = 30\<rparr>"

definition call_openai :: "config \<Rightarrow> network \<Rightarrow> string \<Rightarrow> string \<Rightarrow> state \<Rightarrow> (error + json_value) \<times> state" where
  "call_openai cfg net prompt context s =
     (case post_json net (openai_request cfg prompt context) s of
        (Inl e, s') \<Rightarrow> (Inl e, s')
      | (Inr data, s') \<Rightarrow>
          (and_then (and_then (and_then (getitem_key data ''choices'') getitem_0)
               (\<lambda>v. getitem_key v ''message'')) (\<lambda>v. getitem_key v ''content''), s'))"

section \<open>The dispatcher\<close>

text \<open>The text that is digested, \<^verbatim>\<open>f"{cache_key}:{prompt}:{context}"\<close>, and the cache key.\<close>

definition cache_text :: "string \<Rightarrow> string \<Rightarrow> string \<Rightarrow> string" where
  "cache_text cache_key prompt context = cache_key @ '':'' @ prompt @ '':'' @ context"

definition cache_id :: "string \<Rightarrow> string \<Rightarrow> string \<Rightarrow> string" where
  "cache_id cache_key prompt context = md5_hexdigest (encode (cache_text cache_key prompt context))"

text \<open>\<^verbatim>\<open>if cache_key:\<close> holds for a str that is not empty; \<^verbatim>\<open>cache_id\<close> is bound only then.\<close>

fun cache_slot :: "string option \<Rightarrow> string \<Rightarrow> string \<Rightarrow> string option" where
  "cache_slot None prompt context = None"
| "cache_slot (Some cache_key) prompt context =
     (if cache_key \<noteq> [] then Some (cache_id cache_key prompt context) else None)"

definition call_ai ::
  "config \<Rightarrow> network \<Rightarrow> string \<Rightarrow> string \<Rightarrow> string option \<Rightarrow> state \<Rightarrow> (error + json_value) \<times> state" where
  "call_ai cfg net prompt context cache_key s =
     (case (case cache_slot cache_key prompt context of
              None \<Rightarrow> None
            | Some cid \<Rightarrow> ai_cache s cid) of
        Some hit \<Rightarrow> (Inr hit, s)
      | None \<Rightarrow>
          (case (if AI_PROVIDER cfg = ''claude'' then call_claude cfg net prompt context s
                 else call_openai cfg net prompt context s) of
             (Inl e, s') \<Rightarrow> (Inl e, s')
           | (Inr result, s') \<Rightarrow>
               (case cache_slot cache_key prompt context of
                  None \<Rightarrow> (Inr result, s')
                | Some cid \<Rightarrow> (Inr result, s'\<lparr>ai_cache := (ai_cache s')(cid \<mapsto> result)\<rparr>))))"

section \<open>The generated helpers\<close>

text \<open>The helpers take two more things from the process: the built-in \<^verbatim>\<open>hash\<close> on str, whose
  values are salted anew in every process, and \<^verbatim>\<open>json.dumps(..., default=str)\<close>.\<close>

definition sentiment_prompt :: string where
  "sentiment_prompt =
     ''classify as positive, neutral, or negative\<newline>\<newline>Respond with only the result, no explanation.''"

definition sentiment_cache_key :: "(string \<Rightarrow> int) \<Rightarrow> string \<Rightarrow> string" where
  "sentiment_cache_key hash context =
     ''Message_sentiment_'' @ (if context \<noteq> [] then str_int (hash context) else ''empty'')"

definition compute_message_sentiment ::
  "('d \<Rightarrow> string) \<Rightarrow> (string \<Rightarrow> int) \<Rightarrow> config \<Rightarrow> network \<Rightarrow> 'd \<Rightarrow> state \<Rightarrow> (error + json_value) \<times> state" where
  "compute_message_sentiment dumps hash cfg net data s =
     (let context = dumps data
      in call_ai cfg net sentiment_prompt context (Some (sentiment_cache_key hash context)) s)"

definition summary_prompt :: string where
  "summary_prompt = ''summarize in one sentence\<newline>\<newline>Respond with only the result, no explanation.''"

definition summary_cache_key :: "(string \<Rightarrow> int) \<Rightarrow> string \<Rightarrow> string" where
  "summary_cache_key hash context =
     ''Message_summary_'' @ (if context \<noteq> [] then str_int (hash context) else ''empty'')"

definition compute_message_summary ::
  "('d \<Rightarrow> string) \<Rightarrow> (string \<Rightarrow> int) \<Rightarrow> config \<Rightarrow> network \<Rightarrow> 'd \<Rightarrow> state \<Rightarrow> (error + json_value) \<times> state" where
  "compute_message_summary dumps hash cfg net data s =
     (let context = dumps data
      in call_ai cfg net summary_prompt context (Some (summary_cache_key hash context)) s)"

text \<open>\<^verbatim>\<open>result.strip().lower() == "true"\<close>; a result that is not a str has no \<^verbatim>\<open>strip\<close>.\<close>

fun strip_lower_is_true :: "json_value \<Rightarrow> error + bool" where
  "strip_lower_is_true (JStr r) = Inr (lower (strip r) = ''true'')"
| "strip_lower_is_true v = Inl AttributeError"

text \<open>The rule prompts are plain string literals, not f-strings.\<close>

definition rule_1_prompt :: string where
  "rule_1_prompt =
     ''Analyze this text and determine if it: sounds frustrated or angry\<newline>\<newline>Text: {message_content}\<newline>\<newline>Respond with only ''
     @ [CHR 0x22] @ ''true'' @ [CHR 0x22] @ '' or '' @ [CHR 0x22] @ ''false'' @ [CHR 0x22] @ ''.''"

definition check_rule_1 ::
  "(string \<Rightarrow> int) \<Rightarrow> config \<Rightarrow> network \<Rightarrow> string \<Rightarrow> state \<Rightarrow> (error + bool) \<times> state" where
  "check_rule_1 hash cfg net message_content s =
     (case call_ai cfg net rule_1_prompt [] (Some (''rule_1_'' @ str_int (hash message_content))) s of
        (Inl e, s') \<Rightarrow> (Inl e, s')
      | (Inr result, s') \<Rightarrow> (strip_lower_is_true result, s'))"

definition rule_2_prompt :: string where
  "rule_2_prompt =
     ''Analyze this text and determine if it: looks like spam or marketing\<newline>\<newline>Text: {message_content}\<newline>\<newline>Respond with only ''
     @ [CHR 0x22] @ ''true'' @ [CHR 0x22] @ '' or '' @ [CHR 0x22] @ ''false'' @ [CHR 0x22] @ ''.''"

definition check_rule_2 ::
  "(string \<Rightarrow> int) \<Rightarrow> config \<Rightarrow> network \<Rightarrow> string \<Rightarrow> state \<Rightarrow> (error + bool) \<times> state" where
  "check_rule_2 hash cfg net message_content s =
     (case call_ai cfg net rule_2_prompt [] (Some (''rule_2_'' @ str_int (hash message_content))) s of
        (Inl e, s') \<Rightarrow> (Inl e, s')
      | (Inr result, s') \<Rightarrow> (strip_lower_is_true result, s'))"

section \<open>Notions used to state the properties\<close>

text \<open>The adapter call that \<^const>\<open>call_ai\<close> makes when it does not return from the cache.\<close>

definition selected_adapter ::
  "config \<Rightarrow> network \<Rightarrow> string \<Rightarrow> string \<Rightarrow> state \<Rightarrow> (error + json_value) \<times> state" where
  "selected_adapter cfg net prompt context s =
     (if AI_PROVIDER cfg = ''claude'' then call_claude cfg net prompt context s
      else call_openai cfg net prompt context s)"

text \<open>The text a request carries to the provider: \<^verbatim>\<open>json["messages"][0]["content"]\<close>.\<close>

definition sent_text :: "http_request \<Rightarrow> error + json_value" where
  "sent_text req =
     and_then (and_then (getitem_key (json req) ''messages'') getitem_0) (\<lambda>m. getitem_key m ''content'')"

text \<open>A concrete process for the examples: the default provider, a Claude endpoint that
  answers every request with one text block, an endpoint that answers 500, and the state
  of a process that has just started.\<close>

definition demo_config :: config where
  "demo_config = \<lparr>AI_PROVIDER = ''claude'', ANTHROPIC_API_KEY = ''sk-ant'', OPENAI_API_KEY = ''sk-oai''\<rparr>"

definition claude_replies :: "string \<Rightarrow> network" where
  "claude_replies text = (\<lambda>n req.
     Reply 200 (Some (JObj [(''content'', JArr [JObj [(''type'', JStr ''text''), (''text'', JStr text)]])])))"

definition server_error :: network where
  "server_error = (\<lambda>n req. Reply 500 None)"

definition fresh :: state where
  "fresh = \<lparr>ai_cache = Map.empty, posts = []\<rparr>"

text \<open>The state after \<^verbatim>\<open>call_ai("classify", "{}", "Message_sentiment_123")\<close> was answered
  \<^verbatim>\<open>positive\<close> in a fresh process.\<close>

definition sentiment_cached :: state where
  "sentiment_cached =
     \<lparr>ai_cache = [cache_id ''Message_sentiment_123'' ''classify'' ''{}'' \<mapsto> JStr ''positive''],
      posts = [claude_request demo_config ''classify'' ''{}'']\<rparr>"

section \<open>The adapters and the dispatcher, step by step\<close>

lemma post_json_state: "snd (post_json net req s) = s\<lparr>posts := posts s @ [req]\<rparr>"
  by (simp add: post_json_def Let_def split: http_reply.split option.split)

lemma post_json_frame:
  "post_json net req (s\<lparr>ai_cache := m\<rparr>) =
     (fst (post_json net req s), (snd (post_json net req s))\<lparr>ai_cache := m\<rparr>)"
  by (simp add: post_json_def Let_def split: http_reply.split option.split)

lemma call_claude_state:
  "snd (call_claude cfg net prompt context s) = s\<lparr>posts := posts s @ [claude_request cfg prompt context]\<rparr>"
proof -
  obtain r t where rt: "post_json net (claude_request cfg prompt context) s = (r, t)"
    by (cases "post_json net (claude_request cfg prompt context) s")
  with post_json_state [of net "claude_request cfg prompt context" s]
  have "t = s\<lparr>posts := posts s @ [claude_request cfg prompt context]\<rparr>" by simp
  with rt show ?thesis by (cases r) (simp_all add: call_claude_def)
qed

lemma call_openai_state:
  "snd (call_openai cfg net prompt context s) = s\<lparr>posts := posts s @ [openai_request cfg prompt context]\<rparr>"
proof -
  obtain r t where rt: "post_json net (openai_request cfg prompt context) s = (r, t)"
    by (cases "post_json net (openai_request cfg prompt context) s")
  with post_json_state [of net "openai_request cfg prompt context" s]
  have "t = s\<lparr>posts := posts s @ [openai_request cfg prompt context]\<rparr>" by simp
  with rt show ?thesis by (cases r) (simp_all add: call_openai_def)
qed

lemma call_claude_frame:
  "call_claude cfg net prompt context (s\<lparr>ai_cache := m\<rparr>) =
     (fst (call_claude cfg net prompt context s), (snd (call_claude cfg net prompt context s))\<lparr>ai_cache := m\<rparr>)"
  by (cases "post_json net (claude_request cfg prompt context) s";
      cases "fst (post_json net (claude_request cfg prompt context) s)")
     (simp_all add: call_claude_def post_json_frame)

lemma call_openai_frame:
  "call_openai cfg net prompt context (s\<lparr>ai_cache := m\<rparr>) =
     (fst (call_openai cfg net prompt context s), (snd (call_openai cfg net prompt context s))\<lparr>ai_cache := m\<rparr>)"
  by (cases "post_json net (openai_request cfg prompt context) s";
      cases "fst (post_json net (openai_request cfg prompt context) s)")
     (simp_all add: call_openai_def post_json_frame)

lemma selected_adapter_state:
  "snd (selected_adapter cfg net prompt context s) =
     s\<lparr>posts := posts s @ [if AI_PROVIDER cfg = ''claude'' then claude_request cfg prompt context
                             else openai_request cfg prompt context]\<rparr>"
  by (simp add: selected_adapter_def call_claude_state call_openai_state)

lemma selected_adapter_frame:
  "selected_adapter cfg net prompt context (s\<lparr>ai_cache := m\<rparr>) =
     (fst (selected_adapter cfg net prompt context s),
      (snd (selected_adapter cfg net prompt context s))\<lparr>ai_cache := m\<rparr>)"
  by (simp add: selected_adapter_def call_claude_frame call_openai_frame)

lemma call_ai_unfold:
  "call_ai cfg net prompt context cache_key s =
     (case (case cache_slot cache_key prompt context of None \<Rightarrow> None | Some cid \<Rightarrow> ai_cache s cid) of
        Some hit \<Rightarrow> (Inr hit, s)
      | None \<Rightarrow>
          (case selected_adapter cfg net prompt context s of
             (Inl e, s') \<Rightarrow> (Inl e, s')
           | (Inr result, s') \<Rightarrow>
               (case cache_slot cache_key prompt context of
                  None \<Rightarrow> (Inr result, s')
                | Some cid \<Rightarrow> (Inr result, s'\<lparr>ai_cache := (ai_cache s')(cid \<mapsto> result)\<rparr>))))"
  unfolding call_ai_def selected_adapter_def by (rule refl)

lemma call_ai_hit:
  "cache_slot cache_key prompt context = Some cid \<Longrightarrow> ai_cache s cid = Some v \<Longrightarrow>
   call_ai cfg net prompt context cache_key s = (Inr v, s)"
  by (simp add: call_ai_def)

lemma call_ai_miss_error:
  assumes "\<forall>cid. cache_slot cache_key prompt context = Some cid \<longrightarrow> ai_cache s cid = None"
    and "selected_adapter cfg net prompt context s = (Inl e, s')"
  shows "call_ai cfg net prompt context cache_key s = (Inl e, s')"
  using assms by (simp add: call_ai_unfold split: option.splits)

lemma call_ai_miss_result:
  assumes "\<forall>cid. cache_slot cache_key prompt context = Some cid \<longrightarrow> ai_cache s cid = None"
    and "selected_adapter cfg net prompt context s = (Inr r, s')"
  shows "call_ai cfg net prompt context cache_key s =
     (Inr r, case cache_slot cache_key prompt context of
               None \<Rightarrow> s' | Some cid \<Rightarrow> s'\<lparr>ai_cache := (ai_cache s')(cid \<mapsto> r)\<rparr>)"
  using assms by (simp add: call_ai_unfold split: option.splits)

lemma call_ai_result_cached:
  assumes "cache_key \<noteq> []"
    and "call_ai cfg net prompt context (Some cache_key) s = (Inr r, s1)"
  shows "ai_cache s1 (cache_id cache_key prompt context) = Some r"
  using assms
  by (auto simp add: call_ai_unfold split: option.splits prod.splits sum.splits)

lemma call_ai_posts:
  "posts (snd (call_ai cfg net prompt context cache_key s)) = posts s \<or>
   posts (snd (call_ai cfg net prompt context cache_key s)) =
     posts s @ [if AI_PROVIDER cfg = ''claude'' then claude_request cfg prompt context
                else openai_request cfg prompt context]"
proof -
  obtain r t where rt: "selected_adapter cfg net prompt context s = (r, t)"
    by (cases "selected_adapter cfg net prompt context s")
  with selected_adapter_state [of cfg net prompt "context" s]
  have "posts t = posts s @ [if AI_PROVIDER cfg = ''claude'' then claude_request cfg prompt context
                else openai_request cfg prompt context]" by simp
  with rt show ?thesis
    by (cases r) (simp_all add: call_ai_unfold split: option.splits)
qed

lemma call_ai_miss_posts:
  assumes "\<forall>cid. cache_slot cache_key prompt context = Some cid \<longrightarrow> ai_cache s cid = None"
  shows "posts (snd (call_ai cfg net prompt context cache_key s)) =
     posts s @ [if AI_PROVIDER cfg = ''claude'' then claude_request cfg prompt context
                else openai_request cfg prompt context]"
proof -
  obtain r t where rt: "selected_adapter cfg net prompt context s = (r, t)"
    by (cases "selected_adapter cfg net prompt context s")
  with selected_adapter_state [of cfg net prompt "context" s]
  have t: "posts t = posts s @ [if AI_PROVIDER cfg = ''claude'' then claude_request cfg prompt context
                else openai_request cfg prompt context]" by simp
  show ?thesis
  proof (cases r)
    case (Inl e)
    with rt assms t show ?thesis by (simp add: call_ai_miss_error)
  next
    case (Inr v)
    with rt assms t show ?thesis by (simp add: call_ai_miss_result split: option.splits)
  qed
qed

lemma call_ai_miss_fst:
  assumes "\<forall>cid. cache_slot cache_key prompt context = Some cid \<longrightarrow> ai_cache s cid = None"
  shows "fst (call_ai cfg net prompt context cache_key s) = fst (selected_adapter cfg net prompt context s)"
proof -
  obtain r t where rt: "selected_adapter cfg net prompt context s = (r, t)"
    by (cases "selected_adapter cfg net prompt context s")
  show ?thesis
  proof (cases r)
    case (Inl e)
    with rt assms show ?thesis by (simp add: call_ai_miss_error)
  next
    case (Inr v)
    with rt assms show ?thesis by (simp add: call_ai_miss_result)
  qed
qed

lemma sent_text_claude:
  "sent_text (claude_request cfg prompt context) =
     Inr (JStr (if context = [] then prompt else prompt @ ''\<newline>\<newline>Context: '' @ context))"
  by (simp add: sent_text_def claude_request_def)

lemma sent_text_openai:
  "sent_text (openai_request cfg prompt context) =
     Inr (JStr (if context = [] then prompt else prompt @ ''\<newline>\<newline>Context: '' @ context))"
  by (simp add: sent_text_def openai_request_def)

lemmas demo_simps =
  call_ai_def call_claude_def call_openai_def post_json_def Let_def demo_config_def
  claude_replies_def server_error_def fresh_def sentiment_cached_def

lemma demo_first_call:
  "call_ai demo_config (claude_replies ''positive'') ''classify'' ''{}'' (Some ''Message_sentiment_123'') fresh
     = (Inr (JStr ''positive''), sentiment_cached)"
  by (simp add: demo_simps)

lemma call_ai_no_slot:
  assumes "cache_slot cache_key prompt context = None"
  shows "call_ai cfg net prompt context cache_key s = selected_adapter cfg net prompt context s"
  using assms by (simp add: call_ai_unfold split: prod.splits sum.splits)

lemma non_success_status_raises:
  assumes "net (length (posts s))
             (if AI_PROVIDER cfg = ''claude'' then claude_request cfg prompt context
              else openai_request cfg prompt context) = Reply status body"
    and "\<not> (200 \<le> status \<and> status < 300)"
  shows "fst (selected_adapter cfg net prompt context s) = Inl (HTTPStatusError status)"
  using assms
  by (cases "AI_PROVIDER cfg = ''claude''")
     (simp_all add: selected_adapter_def call_claude_def call_openai_def post_json_def Let_def)

lemma check_rule_1_state:
  "snd (check_rule_1 hash cfg net message_content s) =
   snd (call_ai cfg net rule_1_prompt [] (Some (''rule_1_'' @ str_int (hash message_content))) s)"
  by (simp add: check_rule_1_def split: prod.splits sum.splits)

lemma check_rule_2_state:
  "snd (check_rule_2 hash cfg net message_content s) =
   snd (call_ai cfg net rule_2_prompt [] (Some (''rule_2_'' @ str_int (hash message_content))) s)"
  by (simp add: check_rule_2_def split: prod.splits sum.splits)

lemma call_ai_posts_text:
  "posts (snd (call_ai cfg net prompt [] cache_key s)) = posts s \<or>
   (\<exists>req. posts (snd (call_ai cfg net prompt [] cache_key s)) = posts s @ [req] \<and>
          sent_text req = Inr (JStr prompt))"
proof -
  have "sent_text (if AI_PROVIDER cfg = ''claude'' then claude_request cfg prompt []
                   else openai_request cfg prompt []) = Inr (JStr prompt)"
    by (simp add: sent_text_claude sent_text_openai)
  with call_ai_posts [of cfg net prompt "[]" cache_key s] show ?thesis by auto
qed

lemmas text_simps = lower_def strip_def isspace_def lower_char_def char_of_eq_iff

subsection \<open>Text, bytes and digests\<close>

lemma digits_nonempty: "digits n \<noteq> []"
  by (subst digits.simps) simp

lemma digit_char_inj:
  assumes "a < 10" and "b < 10" and "char_of (48 + a :: nat) = char_of (48 + b)"
  shows "a = b"
proof -
  from assms(3) have "(48 + a) mod 256 = (48 + b) mod 256"
    by (simp only: char_of_quasi_inj)
  moreover from assms(1,2) have "(48 + a) mod 256 = 48 + a" "(48 + b) mod 256 = 48 + b"
    by simp_all
  ultimately show ?thesis by simp
qed

lemma digits_inj: "digits m = digits n \<Longrightarrow> m = n"
proof (induction m arbitrary: n rule: digits.induct)
  case (1 m)
  show ?case
  proof (cases "m < 10")
    case True
    show ?thesis
    proof (cases "n < 10")
      case nn: True
      from "1.prems" True nn have "char_of (48 + m) = char_of (48 + n)"
        by (simp add: digits.simps [of m] digits.simps [of n])
      with True nn show ?thesis by (intro digit_char_inj)
    next
      case False
      with "1.prems" True digits_nonempty [of "n div 10"] show ?thesis
        by (simp add: digits.simps [of m] digits.simps [of n])
    qed
  next
    case False
    show ?thesis
    proof (cases "n < 10")
      case True
      with "1.prems" False digits_nonempty [of "m div 10"] show ?thesis
        by (simp add: digits.simps [of m] digits.simps [of n])
    next
      case nn: False
      from "1.prems" False nn
      have a: "digits (m div 10) = digits (n div 10)"
        and b: "char_of (48 + m mod 10) = char_of (48 + n mod 10)"
        by (simp_all add: digits.simps [of m] digits.simps [of n])
      from "1.IH" [OF False a] have "m div 10 = n div 10" .
      moreover from b have "m mod 10 = n mod 10"
        by (intro digit_char_inj) simp_all
      ultimately show ?thesis by (metis div_mult_mod_eq)
    qed
  qed
qed

lemma digit_char_not_minus:
  assumes "k < 10"
  shows "CHR ''-'' \<noteq> char_of (48 + k :: nat)"
proof
  assume "CHR ''-'' = char_of (48 + k)"
  then have "(of_char (CHR ''-'') :: nat) = of_char (char_of (48 + k))" by (rule arg_cong)
  then have "(45 :: nat) = (48 + k) mod 256" by simp
  with assms show False by simp
qed

lemma digits_no_minus: "CHR ''-'' \<notin> set (digits n)"
proof (induction n rule: digits.induct)
  case (1 n)
  show ?case
  proof (cases "n < 10")
    case True
    then show ?thesis by (simp add: digits.simps [of n] digit_char_not_minus)
  next
    case False
    with 1 show ?thesis by (simp add: digits.simps [of n] digit_char_not_minus)
  qed
qed

lemma str_int_inj: "str_int i = str_int j \<Longrightarrow> i = j"
proof -
  assume eq: "str_int i = str_int j"
  have hd_neg: "hd (digits n) \<noteq> CHR ''-''" for n
    using digits_no_minus [of n] digits_nonempty [of n] by (cases "digits n") auto
  show ?thesis
  proof (cases "i < 0"; cases "j < 0")
    assume "i < 0" "j < 0"
    with eq have "nat (- i) = nat (- j)" by (auto simp add: str_int_def dest: digits_inj)
    with \<open>i < 0\<close> \<open>j < 0\<close> show ?thesis by simp
  next
    assume "i < 0" "\<not> j < 0"
    with eq have "CHR ''-'' # digits (nat (- i)) = digits (nat j)" by (simp add: str_int_def)
    with hd_neg [of "nat j"] show ?thesis by (metis list.sel(1))
  next
    assume "\<not> i < 0" "j < 0"
    with eq have "CHR ''-'' # digits (nat (- j)) = digits (nat i)" by (simp add: str_int_def)
    with hd_neg [of "nat i"] show ?thesis by (metis list.sel(1))
  next
    assume "\<not> i < 0" "\<not> j < 0"
    with eq have "nat i = nat j" by (auto simp add: str_int_def dest: digits_inj)
    with \<open>\<not> i < 0\<close> \<open>\<not> j < 0\<close> show ?thesis by simp
  qed
qed

lemma of_char_bound: "of_char ch < (256 :: nat)"
  by (metis of_char_mod_256 mod_less_divisor zero_less_numeral)

lemma unat_u8_of_nat: "k < 256 \<Longrightarrow> unat (word_of_nat k :: u8) = k"
  by (simp only: unat_of_nat) simp

lemma unat_encode_char:
  "map unat (encode_char ch) =
     (if of_char ch < (128 :: nat) then [of_char ch]
      else [192 + of_char ch div 64, 128 + of_char ch mod 64])"
proof (cases "of_char ch < (128 :: nat)")
  case True
  have b: "(of_char ch :: nat) < 256" by (rule of_char_bound)
  from True show ?thesis
    by (simp only: encode_char_def Let_def if_True list.map unat_u8_of_nat [OF b])
next
  case False
  have b: "(of_char ch :: nat) < 256" by (rule of_char_bound)
  then have hi: "192 + (of_char ch :: nat) div 64 < 256"
    and lo: "128 + (of_char ch :: nat) mod 64 < 256" by arith+
  from False show ?thesis
    by (simp only: encode_char_def Let_def if_False list.map
          unat_u8_of_nat [OF hi] unat_u8_of_nat [OF lo])
qed

lemma encode_char_length: "length (encode_char a) = (if of_char a < (128 :: nat) then 1 else 2)"
  by (simp add: encode_char_def Let_def)

lemma encode_char_inj_prefix:
  assumes "encode_char a @ xs = encode_char b @ ys"
  shows "a = b \<and> xs = ys"
proof -
  from assms have eq: "map unat (encode_char a) @ map unat xs = map unat (encode_char b) @ map unat ys"
    by (metis map_append)
  define m where "m = (of_char a :: nat)"
  define n where "n = (of_char b :: nat)"
  have bm: "m < 256" and bn: "n < 256" by (simp_all add: m_def n_def of_char_bound)
  from eq have *: "(if m < 128 then [m] else [192 + m div 64, 128 + m mod 64]) @ map unat xs =
                   (if n < 128 then [n] else [192 + n div 64, 128 + n mod 64]) @ map unat ys"
    by (simp only: unat_encode_char m_def n_def)
  have "m = n"
  proof (cases "m < 128"; cases "n < 128")
    assume "\<not> m < 128" "\<not> n < 128"
    with * have "m div 64 = n div 64" "m mod 64 = n mod 64" by simp_all
    then show ?thesis by (metis div_mult_mod_eq)
  next
    assume "m < 128" "\<not> n < 128"
    with * have "m = 192 + n div 64" by simp
    with \<open>m < 128\<close> show ?thesis by simp
  next
    assume "\<not> m < 128" "n < 128"
    with * have "n = 192 + m div 64" by simp
    with \<open>n < 128\<close> show ?thesis by simp
  qed (use * in simp_all)
  then have "a = b" by (simp add: m_def n_def)
  with assms show ?thesis by simp
qed

lemma encode_char_nonempty: "encode_char a \<noteq> []"
  by (simp add: encode_char_def Let_def)

lemma encode_inj: "encode s = encode t \<Longrightarrow> s = t"
proof (induction s arbitrary: t)
  case Nil
  then show ?case by (cases t) (simp_all add: encode_def encode_char_nonempty)
next
  case (Cons a s)
  show ?case
  proof (cases t)
    case Nil
    with Cons.prems show ?thesis by (simp add: encode_def encode_char_nonempty)
  next
    case (Cons b t')
    with Cons.prems have "encode_char a @ encode s = encode_char b @ encode t'"
      by (simp add: encode_def)
    then have "a = b" "encode s = encode t'" by (auto dest: encode_char_inj_prefix)
    with Cons.IH Cons show ?thesis by simp
  qed
qed

lemma hex_bytes_length: "length (concat (map hex_byte bs)) = 2 * length bs"
  by (induction bs) (simp_all add: hex_byte_def)

lemma le_bytes32_length: "length (le_bytes32 w) = 4"
  by (simp add: le_bytes32_def)

lemma md5_hexdigest_length: "length (md5_hexdigest bs) = 32"
  by (simp add: md5_hexdigest_def hex_bytes_length le_bytes32_length split: prod.splits)

text \<open>Digests of short texts, as \<^verbatim>\<open>hashlib\<close> gives them.\<close>

lemma cache_id_h_p_a: "cache_id ''h'' ''p'' ''a'' = ''3de74b04a7094691067b72cb04c64e90''"
  by code_simp
lemma cache_id_h_p_b: "cache_id ''h'' ''p'' ''b'' = ''1468b1f3acc51460175c2d6fb7c09b99''"
  by code_simp


lemma cache_id_h_q_a: "cache_id ''h'' ''q'' ''a'' = ''8c1cfb6cebd7ad95933972a2f0d83c43''"
  by code_simp
lemma cache_id_g_p_a: "cache_id ''g'' ''p'' ''a'' = ''5819623b8dd7976ad0dbbb4259f82820''"
  by code_simp
lemma cache_id_sentiment_123: "cache_id ''Message_sentiment_123'' ''classify'' ''{}'' = ''41fb59ec60fbf775c1c0963cae6ed10d''"
  by code_simp

lemma cache_text_inj:
  "cache_text k p c = cache_text k p c' \<longleftrightarrow> c = c'"
  "cache_text k p c = cache_text k p' c \<longleftrightarrow> p = p'"
  "cache_text k p c = cache_text k' p c \<longleftrightarrow> k = k'"
  by (simp_all add: cache_text_def)

section \<open>The claims\<close>

text \<open>
  C1 (cache idempotence), as the code has it. Two invocations with the same
  \<open>(cache_key, prompt, context)\<close>, the hint not empty, the second right after the first:
  when the first returns a text, the second returns the same text and posts nothing;
  and when the cache held no entry for the key before the first, the two together post
  exactly one request.
\<close>

theorem call_ai_cache_idempotence:
  assumes "cache_key \<noteq> []"
    and "call_ai cfg net prompt context (Some cache_key) s = (Inr r1, s1)"
    and "call_ai cfg net prompt context (Some cache_key) s1 = (res2, s2)"
  shows "res2 = Inr r1 \<and> posts s2 = posts s1 \<and>
         (ai_cache s (cache_id cache_key prompt context) = None \<longrightarrow>
            (\<exists>req. posts s2 = posts s @ [req]))"
proof -
  have hit: "ai_cache s1 (cache_id cache_key prompt context) = Some r1"
    using assms(1,2) by (rule call_ai_result_cached)
  have "call_ai cfg net prompt context (Some cache_key) s1 = (Inr r1, s1)"
    using assms(1) hit by (intro call_ai_hit) simp_all
  with assms(3) have eq: "res2 = Inr r1" "s2 = s1" by simp_all
  have "\<exists>req. posts s1 = posts s @ [req]" if "ai_cache s (cache_id cache_key prompt context) = None"
  proof -
    from that assms(1)
    have "\<forall>cid. cache_slot (Some cache_key) prompt context = Some cid \<longrightarrow> ai_cache s cid = None"
      by simp
    from call_ai_miss_posts [OF this, of cfg net] assms(2) show ?thesis by simp
  qed
  with eq show ?thesis by simp
qed

theorem call_ai_cache_idempotence_witness:
  "call_ai demo_config (claude_replies ''positive'') ''classify'' ''{}'' (Some ''Message_sentiment_123'') fresh
     = (Inr (JStr ''positive''), sentiment_cached)
   \<and> call_ai demo_config (claude_replies ''positive'') ''classify'' ''{}'' (Some ''Message_sentiment_123'')
       sentiment_cached = (Inr (JStr ''positive''), sentiment_cached)
   \<and> posts sentiment_cached = posts fresh @ [claude_request demo_config ''classify'' ''{}'']"
proof -
  have k: "''Message_sentiment_123'' \<noteq> []" by simp
  obtain res2 s2 where second:
    "call_ai demo_config (claude_replies ''positive'') ''classify'' ''{}'' (Some ''Message_sentiment_123'')
       sentiment_cached = (res2, s2)"
    by (cases "call_ai demo_config (claude_replies ''positive'') ''classify'' ''{}''
       (Some ''Message_sentiment_123'') sentiment_cached")
  from call_ai_cache_idempotence [OF k demo_first_call second]
  have "res2 = Inr (JStr ''positive'')" by simp
  moreover have "s2 = sentiment_cached"
    using second by (simp add: demo_simps)
  ultimately show ?thesis
    using second demo_first_call by (simp add: sentiment_cached_def fresh_def)
qed

text \<open>
  C1 as the spec states it fails: after a first invocation has cached the answer, the
  next two invocations with the same triple post no request at all, not exactly one.
\<close>

theorem call_ai_two_calls_no_post:
  "sentiment_cached =
     snd (call_ai demo_config (claude_replies ''positive'') ''classify'' ''{}'' (Some ''Message_sentiment_123'') fresh) \<and>
   posts (snd (call_ai demo_config (claude_replies ''positive'') ''classify'' ''{}'' (Some ''Message_sentiment_123'')
      (snd (call_ai demo_config (claude_replies ''positive'') ''classify'' ''{}'' (Some ''Message_sentiment_123'')
         sentiment_cached))))
   = posts sentiment_cached"
  by (simp add: demo_first_call) (simp add: demo_simps)

text \<open>
  C2 (no caching without a hint). When \<^verbatim>\<open>cache_key\<close> is \<^verbatim>\<open>None\<close> or the empty string,
  \<^const>\<open>call_ai\<close> leaves \<^verbatim>\<open>_ai_cache\<close> as it was, and what it returns and posts does not
  depend on what the cache holds: run with any other cache \<open>m\<close>, it does the same and
  leaves \<open>m\<close> as it was.
\<close>

theorem call_ai_without_hint_skips_cache:
  assumes "cache_key = None \<or> cache_key = Some []"
  shows "ai_cache (snd (call_ai cfg net prompt context cache_key s)) = ai_cache s \<and>
         call_ai cfg net prompt context cache_key (s\<lparr>ai_cache := m\<rparr>) =
           (fst (call_ai cfg net prompt context cache_key s),
            (snd (call_ai cfg net prompt context cache_key s))\<lparr>ai_cache := m\<rparr>)"
proof -
  from assms have none: "cache_slot cache_key prompt context = None" by auto
  have "ai_cache (snd (selected_adapter cfg net prompt context s)) = ai_cache s"
    by (simp add: selected_adapter_state)
  then show ?thesis
    by (simp add: call_ai_no_slot [OF none] selected_adapter_frame)
qed

theorem call_ai_without_hint_skips_cache_witness:
  "ai_cache (snd (call_ai demo_config (claude_replies ''positive'') ''classify'' ''{}'' (Some [])
      sentiment_cached)) = ai_cache sentiment_cached \<and>
   call_ai demo_config (claude_replies ''positive'') ''classify'' ''{}'' (Some [])
      (sentiment_cached\<lparr>ai_cache := Map.empty\<rparr>) =
     (fst (call_ai demo_config (claude_replies ''positive'') ''classify'' ''{}'' (Some []) sentiment_cached),
      (snd (call_ai demo_config (claude_replies ''positive'') ''classify'' ''{}'' (Some []) sentiment_cached))
        \<lparr>ai_cache := Map.empty\<rparr>)"
proof -
  have h: "(Some [] :: string option) = None \<or> (Some [] :: string option) = Some []" by simp
  show ?thesis by (rule call_ai_without_hint_skips_cache [OF h])
qed

text \<open>
  C3 (payload shaping). Each adapter posts exactly one request, and the text that request
  carries is the prompt alone when \<^verbatim>\<open>context\<close> is empty, and otherwise the prompt, two
  newlines, \<^verbatim>\<open>Context: \<close> and the context.
\<close>

theorem adapters_payload_shape:
  "posts (snd (call_claude cfg net prompt context s)) = posts s @ [claude_request cfg prompt context] \<and>
   sent_text (claude_request cfg prompt context) =
     Inr (JStr (if context = [] then prompt else prompt @ ''\<newline>\<newline>Context: '' @ context)) \<and>
   posts (snd (call_openai cfg net prompt context s)) = posts s @ [openai_request cfg prompt context] \<and>
   sent_text (openai_request cfg prompt context) =
     Inr (JStr (if context = [] then prompt else prompt @ ''\<newline>\<newline>Context: '' @ context))"
  by (simp add: call_claude_state call_openai_state sent_text_claude sent_text_openai)

text \<open>
  C4 (error propagation). With a hint that is not empty and no entry for the key, when the
  selected adapter raises, \<^const>\<open>call_ai\<close> raises the same exception, and the cache is what
  it was: still no entry for the key. So it is when the provider answers with a status
  outside 200 to 299: \<^const>\<open>call_ai\<close> raises the status error and the cache is what it was.
\<close>

theorem call_ai_provider_error_propagates:
  assumes "cache_key \<noteq> []"
    and "ai_cache s (cache_id cache_key prompt context) = None"
  shows "(selected_adapter cfg net prompt context s = (Inl e, s') \<longrightarrow>
            call_ai cfg net prompt context (Some cache_key) s = (Inl e, s') \<and>
            ai_cache s' = ai_cache s \<and>
            ai_cache s' (cache_id cache_key prompt context) = None) \<and>
         (net (length (posts s))
              (if AI_PROVIDER cfg = ''claude'' then claude_request cfg prompt context
               else openai_request cfg prompt context) = Reply status body \<and>
          \<not> (200 \<le> status \<and> status < 300) \<longrightarrow>
            fst (call_ai cfg net prompt context (Some cache_key) s) = Inl (HTTPStatusError status) \<and>
            ai_cache (snd (call_ai cfg net prompt context (Some cache_key) s)) = ai_cache s)"
proof -
  from assms
  have miss: "\<forall>cid. cache_slot (Some cache_key) prompt context = Some cid \<longrightarrow> ai_cache s cid = None"
    by simp
  have raised: "call_ai cfg net prompt context (Some cache_key) s = (Inl x, t) \<and> ai_cache t = ai_cache s"
    if "selected_adapter cfg net prompt context s = (Inl x, t)" for x t
  proof -
    from selected_adapter_state [of cfg net prompt "context" s] that
    have "ai_cache t = ai_cache s" by simp
    with call_ai_miss_error [OF miss that] show ?thesis by simp
  qed
  have one: "selected_adapter cfg net prompt context s = (Inl e, s') \<longrightarrow>
            call_ai cfg net prompt context (Some cache_key) s = (Inl e, s') \<and>
            ai_cache s' = ai_cache s \<and>
            ai_cache s' (cache_id cache_key prompt context) = None"
  proof
    assume "selected_adapter cfg net prompt context s = (Inl e, s')"
    from raised [OF this] assms(2)
    show "call_ai cfg net prompt context (Some cache_key) s = (Inl e, s') \<and>
            ai_cache s' = ai_cache s \<and>
            ai_cache s' (cache_id cache_key prompt context) = None"
      by simp
  qed
  have two: "net (length (posts s))
              (if AI_PROVIDER cfg = ''claude'' then claude_request cfg prompt context
               else openai_request cfg prompt context) = Reply status body \<and>
          \<not> (200 \<le> status \<and> status < 300) \<longrightarrow>
            fst (call_ai cfg net prompt context (Some cache_key) s) = Inl (HTTPStatusError status) \<and>
            ai_cache (snd (call_ai cfg net prompt context (Some cache_key) s)) = ai_cache s"
  proof
    assume h: "net (length (posts s))
              (if AI_PROVIDER cfg = ''claude'' then claude_request cfg prompt context
               else openai_request cfg prompt context) = Reply status body \<and>
          \<not> (200 \<le> status \<and> status < 300)"
    from h have reply: "net (length (posts s))
              (if AI_PROVIDER cfg = ''claude'' then claude_request cfg prompt context
               else openai_request cfg prompt context) = Reply status body"
      by (rule conjunct1)
    from h have status: "\<not> (200 \<le> status \<and> status < 300)"
      by (rule conjunct2)
    from non_success_status_raises [of net s cfg prompt "context" status body, OF reply status]
    have "selected_adapter cfg net prompt context s =
            (Inl (HTTPStatusError status), snd (selected_adapter cfg net prompt context s))"
      by (metis prod.collapse)
    from raised [OF this]
    show "fst (call_ai cfg net prompt context (Some cache_key) s) = Inl (HTTPStatusError status) \<and>
            ai_cache (snd (call_ai cfg net prompt context (Some cache_key) s)) = ai_cache s"
      by simp
  qed
  from one two show ?thesis by (rule conjI)
qed

theorem call_ai_provider_error_propagates_witness:
  "server_error (length (posts fresh)) (claude_request demo_config ''classify'' ''{}'') = Reply 500 None \<and>
   selected_adapter demo_config server_error ''classify'' ''{}'' fresh =
     (Inl (HTTPStatusError 500), fresh\<lparr>posts := [claude_request demo_config ''classify'' ''{}'']\<rparr>) \<and>
   call_ai demo_config server_error ''classify'' ''{}'' (Some ''Message_sentiment_123'') fresh =
     (Inl (HTTPStatusError 500), fresh\<lparr>posts := [claude_request demo_config ''classify'' ''{}'']\<rparr>) \<and>
   ai_cache (fresh\<lparr>posts := [claude_request demo_config ''classify'' ''{}'']\<rparr>)
     (cache_id ''Message_sentiment_123'' ''classify'' ''{}'') = None"
proof -
  have k: "''Message_sentiment_123'' \<noteq> []" by simp
  have miss: "ai_cache fresh (cache_id ''Message_sentiment_123'' ''classify'' ''{}'') = None"
    by (simp add: fresh_def)
  have reply: "server_error (length (posts fresh)) (claude_request demo_config ''classify'' ''{}'') = Reply 500 None"
    by (simp add: server_error_def)
  have raised: "selected_adapter demo_config server_error ''classify'' ''{}'' fresh =
     (Inl (HTTPStatusError 500), fresh\<lparr>posts := [claude_request demo_config ''classify'' ''{}'']\<rparr>)"
    by (simp add: selected_adapter_def demo_simps)
  from call_ai_provider_error_propagates [OF k miss, of demo_config server_error "HTTPStatusError 500"
      "fresh\<lparr>posts := [claude_request demo_config ''classify'' ''{}'']\<rparr>" 500 None]
    raised reply
  show ?thesis by simp
qed

text \<open>
  C5 (reproducible keys), as the code has it. The dispatcher's key is the MD5 digest of
  \<^verbatim>\<open>cache_key:prompt:context\<close>, whatever the configuration, the network and the state
  are: that is the slot a returned text is stored in, and for the hint
  \<^verbatim>\<open>Message_sentiment_123\<close>, prompt \<^verbatim>\<open>classify\<close> and context \<^verbatim>\<open>{}\<close> it is the digest
  below in every process. The hints that \<^const>\<open>compute_message_sentiment\<close> and
  \<^const>\<open>compute_message_summary\<close> build are another matter: two processes, with the
  string hashes \<open>hash1\<close> and \<open>hash2\<close>, build the same hint for a context exactly when the
  context is empty or their hashes of it agree.
\<close>

theorem cache_keys_across_processes:
  "(cache_key \<noteq> [] \<and> call_ai cfg net prompt context (Some cache_key) s = (Inr r, s1) \<longrightarrow>
      ai_cache s1 (md5_hexdigest (encode (cache_key @ '':'' @ prompt @ '':'' @ context))) = Some r) \<and>
   cache_id ''Message_sentiment_123'' ''classify'' ''{}'' = ''41fb59ec60fbf775c1c0963cae6ed10d'' \<and>
   compute_message_sentiment dumps hash1 cfg net data s =
     call_ai cfg net sentiment_prompt (dumps data) (Some (sentiment_cache_key hash1 (dumps data))) s \<and>
   (sentiment_cache_key hash1 context = sentiment_cache_key hash2 context
      \<longleftrightarrow> context = [] \<or> hash1 context = hash2 context) \<and>
   compute_message_summary dumps hash1 cfg net data s =
     call_ai cfg net summary_prompt (dumps data) (Some (summary_cache_key hash1 (dumps data))) s \<and>
   (summary_cache_key hash1 context = summary_cache_key hash2 context
      \<longleftrightarrow> context = [] \<or> hash1 context = hash2 context)"
proof -
  have inj: "str_int i = str_int j \<longleftrightarrow> i = j" for i j
    by (auto dest: str_int_inj)
  have "ai_cache s1 (md5_hexdigest (encode (cache_key @ '':'' @ prompt @ '':'' @ context))) = Some r"
    if "cache_key \<noteq> []" "call_ai cfg net prompt context (Some cache_key) s = (Inr r, s1)"
    using call_ai_result_cached [OF that] by (simp add: cache_id_def cache_text_def)
  then show ?thesis
    by (simp add: cache_id_sentiment_123 inj sentiment_cache_key_def summary_cache_key_def
          compute_message_sentiment_def compute_message_summary_def Let_def)
qed

theorem cache_keys_across_processes_witness:
  "call_ai demo_config (claude_replies ''positive'') ''classify'' ''{}'' (Some ''Message_sentiment_123'') fresh
     = (Inr (JStr ''positive''), sentiment_cached) \<and>
   ai_cache sentiment_cached (md5_hexdigest (encode ''Message_sentiment_123:classify:{}'')) =
     Some (JStr ''positive'')"
proof -
  have k: "''Message_sentiment_123'' \<noteq> []" by simp
  from cache_keys_across_processes [of "''Message_sentiment_123''" demo_config
      "claude_replies ''positive''" "''classify''" "''{}''" fresh "JStr ''positive''" sentiment_cached
      "\<lambda>d. d" "\<lambda>c. 0" "''{}''" "\<lambda>c. 0"]
    k demo_first_call
  show ?thesis by simp
qed

text \<open>
  C5 as the spec states it fails for the helpers' hints: two processes whose string
  hashes give 1 and 2 for the serialized context \<^verbatim>\<open>{}\<close> build different hints for it.
\<close>

theorem helper_hint_differs_between_processes:
  "sentiment_cache_key (\<lambda>c. 1) ''{}'' \<noteq> sentiment_cache_key (\<lambda>c. 2) ''{}''"
  by (simp add: sentiment_cache_key_def str_int_def digits.simps)

text \<open>
  C6 (the key combines the three inputs). The key is the MD5 digest, 32 characters long,
  of the bytes of \<^verbatim>\<open>cache_key:prompt:context\<close>. With the other two
  inputs fixed, the digested bytes are the same only when the context is the same, and
  likewise for the prompt and for the hint; and there are requests that differ in the
  context only, in the prompt only, and in the hint only, whose keys differ.
\<close>

theorem cache_id_combines_inputs:
  "cache_id cache_key prompt context =
     md5_hexdigest (encode (cache_key @ '':'' @ prompt @ '':'' @ context)) \<and>
   length (cache_id cache_key prompt context) = 32 \<and>
   (encode (cache_text cache_key prompt context) = encode (cache_text cache_key prompt context')
      \<longleftrightarrow> context = context') \<and>
   (encode (cache_text cache_key prompt context) = encode (cache_text cache_key prompt' context)
      \<longleftrightarrow> prompt = prompt') \<and>
   (encode (cache_text cache_key prompt context) = encode (cache_text cache_key' prompt context)
      \<longleftrightarrow> cache_key = cache_key') \<and>
   cache_id ''h'' ''p'' ''a'' \<noteq> cache_id ''h'' ''p'' ''b'' \<and>
   cache_id ''h'' ''p'' ''a'' \<noteq> cache_id ''h'' ''q'' ''a'' \<and>
   cache_id ''h'' ''p'' ''a'' \<noteq> cache_id ''g'' ''p'' ''a''"
proof -
  have inj: "encode x = encode y \<longleftrightarrow> x = y" for x y
    by (auto dest: encode_inj)
  show ?thesis
    by (simp add: inj cache_text_inj cache_id_h_p_a cache_id_h_p_b cache_id_h_q_a cache_id_g_p_a)
       (simp add: cache_id_def cache_text_def md5_hexdigest_length)
qed

text \<open>
  C7 (provider selection). When \<^const>\<open>call_ai\<close> does not return from the cache (no hint, or
  no entry for the key), it posts exactly one request: the Claude adapter's when
  \<^verbatim>\<open>AI_PROVIDER\<close> is \<^verbatim>\<open>"claude"\<close>, the OpenAI adapter's otherwise, and its result is that
  adapter's. The two adapters post to different URLs.
\<close>

theorem call_ai_selects_one_adapter:
  assumes "\<forall>cid. cache_slot cache_key prompt context = Some cid \<longrightarrow> ai_cache s cid = None"
  shows "posts (snd (call_ai cfg net prompt context cache_key s)) =
           posts s @ [if AI_PROVIDER cfg = ''claude'' then claude_request cfg prompt context
                      else openai_request cfg prompt context] \<and>
         fst (call_ai cfg net prompt context cache_key s) =
           fst (if AI_PROVIDER cfg = ''claude'' then call_claude cfg net prompt context s
                else call_openai cfg net prompt context s) \<and>
         url (claude_request cfg prompt context) \<noteq> url (openai_request cfg prompt context)"
proof -
  have "url (claude_request cfg prompt context) \<noteq> url (openai_request cfg prompt context)"
    by (simp add: claude_request_def openai_request_def)
  with call_ai_miss_posts [OF assms, of cfg net] call_ai_miss_fst [OF assms, of cfg net]
  show ?thesis by (simp add: selected_adapter_def)
qed

theorem call_ai_selects_one_adapter_witness:
  "posts (snd (call_ai (demo_config\<lparr>AI_PROVIDER := ''openai''\<rparr>) server_error ''classify'' ''{}'' None
      sentiment_cached)) =
     posts sentiment_cached @ [openai_request (demo_config\<lparr>AI_PROVIDER := ''openai''\<rparr>) ''classify'' ''{}''] \<and>
   posts (snd (call_ai demo_config server_error ''classify'' ''{}'' None sentiment_cached)) =
     posts sentiment_cached @ [claude_request demo_config ''classify'' ''{}'']"
proof -
  have miss: "\<forall>cid. cache_slot None ''classify'' ''{}'' = Some cid \<longrightarrow> ai_cache sentiment_cached cid = None"
    by simp
  from call_ai_selects_one_adapter [OF miss, of "demo_config\<lparr>AI_PROVIDER := ''openai''\<rparr>" server_error]
       call_ai_selects_one_adapter [OF miss, of demo_config server_error]
  show ?thesis by (simp add: demo_config_def)
qed

text \<open>
  C8 (rule helpers). When the dispatcher returns the text \<open>r\<close>, \<^const>\<open>check_rule_1\<close> and
  \<^const>\<open>check_rule_2\<close> return whether \<open>r\<close>, stripped and lower-cased, is \<^verbatim>\<open>true\<close>: so
  \<^verbatim>\<open>" True "\<close> gives true and \<^verbatim>\<open>"maybe"\<close> gives false.
\<close>

theorem check_rule_boolean_mapping:
  "(call_ai cfg net rule_1_prompt [] (Some (''rule_1_'' @ str_int (hash message_content))) s = (Inr (JStr r), s')
      \<longrightarrow> check_rule_1 hash cfg net message_content s = (Inr (lower (strip r) = ''true''), s')) \<and>
   (call_ai cfg net rule_2_prompt [] (Some (''rule_2_'' @ str_int (hash message_content))) s = (Inr (JStr r), s')
      \<longrightarrow> check_rule_2 hash cfg net message_content s = (Inr (lower (strip r) = ''true''), s')) \<and>
   lower (strip '' True '') = ''true'' \<and> lower (strip ''maybe'') \<noteq> ''true''"
  by (simp add: check_rule_1_def check_rule_2_def text_simps)

theorem check_rule_boolean_mapping_witness:
  "fst (call_ai demo_config (claude_replies '' True '') rule_1_prompt []
          (Some (''rule_1_'' @ str_int 42)) fresh) = Inr (JStr '' True '') \<and>
   fst (check_rule_1 (\<lambda>m. 42) demo_config (claude_replies '' True '') ''where is my order'' fresh) = Inr True \<and>
   fst (call_ai demo_config (claude_replies ''maybe'') rule_2_prompt []
          (Some (''rule_2_'' @ str_int 42)) fresh) = Inr (JStr ''maybe'') \<and>
   fst (check_rule_2 (\<lambda>m. 42) demo_config (claude_replies ''maybe'') ''where is my order'' fresh) = Inr False"
proof -
  obtain s1 where one:
    "call_ai demo_config (claude_replies '' True '') rule_1_prompt []
       (Some (''rule_1_'' @ str_int 42)) fresh = (Inr (JStr '' True ''), s1)"
    by (simp add: demo_simps)
  obtain s2 where two:
    "call_ai demo_config (claude_replies ''maybe'') rule_2_prompt []
       (Some (''rule_2_'' @ str_int 42)) fresh = (Inr (JStr ''maybe''), s2)"
    by (simp add: demo_simps)
  note inst = check_rule_boolean_mapping [of demo_config _ "\<lambda>m. 42" "''where is my order''" fresh]
  from inst [of "claude_replies '' True ''" "'' True ''" s1] one
  have "check_rule_1 (\<lambda>m. 42) demo_config (claude_replies '' True '') ''where is my order'' fresh =
          (Inr True, s1)" by simp
  moreover from inst [of "claude_replies ''maybe''" "''maybe''" s2] two
  have "check_rule_2 (\<lambda>m. 42) demo_config (claude_replies ''maybe'') ''where is my order'' fresh =
          (Inr False, s2)" by simp
  ultimately show ?thesis using one two by simp
qed

text \<open>
  C9 (the placeholder is never filled in). The prompts of \<^const>\<open>check_rule_1\<close> and
  \<^const>\<open>check_rule_2\<close> are constants that contain the token \<^verbatim>\<open>{message_content}\<close> as it
  stands; \<^verbatim>\<open>message_content\<close> reaches \<^const>\<open>call_ai\<close> through the cache key only; and a
  request the helper posts carries exactly the constant prompt, whatever the message is.
\<close>

theorem check_rule_prompt_ignores_message:
  "(\<exists>u v. rule_1_prompt = u @ ''{message_content}'' @ v) \<and>
   (\<exists>u v. rule_2_prompt = u @ ''{message_content}'' @ v) \<and>
   check_rule_1 hash cfg net message_content s =
     (case call_ai cfg net rule_1_prompt [] (Some (''rule_1_'' @ str_int (hash message_content))) s of
        (Inl e, s') \<Rightarrow> (Inl e, s') | (Inr result, s') \<Rightarrow> (strip_lower_is_true result, s')) \<and>
   check_rule_2 hash cfg net message_content s =
     (case call_ai cfg net rule_2_prompt [] (Some (''rule_2_'' @ str_int (hash message_content))) s of
        (Inl e, s') \<Rightarrow> (Inl e, s') | (Inr result, s') \<Rightarrow> (strip_lower_is_true result, s')) \<and>
   (posts (snd (check_rule_1 hash cfg net message_content s)) = posts s \<or>
    (\<exists>req. posts (snd (check_rule_1 hash cfg net message_content s)) = posts s @ [req] \<and>
           sent_text req = Inr (JStr rule_1_prompt))) \<and>
   (posts (snd (check_rule_2 hash cfg net message_content s)) = posts s \<or>
    (\<exists>req. posts (snd (check_rule_2 hash cfg net message_content s)) = posts s @ [req] \<and>
           sent_text req = Inr (JStr rule_2_prompt)))"
proof -
  have "rule_1_prompt =
      ''Analyze this text and determine if it: sounds frustrated or angry\<newline>\<newline>Text: ''
      @ ''{message_content}'' @ (''\<newline>\<newline>Respond with only '' @ [CHR 0x22] @ ''true'' @ [CHR 0x22] @ '' or ''
         @ [CHR 0x22] @ ''false'' @ [CHR 0x22] @ ''.'')"
    by (simp add: rule_1_prompt_def)
  then have one: "\<exists>u v. rule_1_prompt = u @ ''{message_content}'' @ v" by blast
  have "rule_2_prompt =
      ''Analyze this text and determine if it: looks like spam or marketing\<newline>\<newline>Text: ''
      @ ''{message_content}'' @ (''\<newline>\<newline>Respond with only '' @ [CHR 0x22] @ ''true'' @ [CHR 0x22] @ '' or ''
         @ [CHR 0x22] @ ''false'' @ [CHR 0x22] @ ''.'')"
    by (simp add: rule_2_prompt_def)
  then have two: "\<exists>u v. rule_2_prompt = u @ ''{message_content}'' @ v" by blast
  from one two show ?thesis
    using call_ai_posts_text [of cfg net rule_1_prompt "Some (''rule_1_'' @ str_int (hash message_content))" s]
          call_ai_posts_text [of cfg net rule_2_prompt "Some (''rule_2_'' @ str_int (hash message_content))" s]
    by (simp add: check_rule_1_state check_rule_2_state) (simp add: check_rule_1_def check_rule_2_def)
qed

text \<open>
  C10 (the key does not name the provider). Once an invocation with a hint that is not
  empty has returned a text, the next invocation with the same triple returns that text
  from the cache and posts nothing, whatever \<^verbatim>\<open>AI_PROVIDER\<close> has become in between and
  whatever the network would answer.
\<close>

theorem cached_text_outlives_provider_change:
  assumes "cache_key \<noteq> []"
    and "call_ai cfg net prompt context (Some cache_key) s = (Inr r, s1)"
  shows "call_ai (cfg\<lparr>AI_PROVIDER := provider\<rparr>) net' prompt context (Some cache_key) s1 = (Inr r, s1)"
proof -
  have "ai_cache s1 (cache_id cache_key prompt context) = Some r"
    using assms by (rule call_ai_result_cached)
  with assms(1) show ?thesis by (intro call_ai_hit) simp_all
qed

theorem cached_text_outlives_provider_change_witness:
  "call_ai demo_config (claude_replies ''positive'') ''classify'' ''{}'' (Some ''Message_sentiment_123'') fresh
     = (Inr (JStr ''positive''), sentiment_cached) \<and>
   call_ai (demo_config\<lparr>AI_PROVIDER := ''openai''\<rparr>) server_error ''classify'' ''{}''
     (Some ''Message_sentiment_123'') sentiment_cached = (Inr (JStr ''positive''), sentiment_cached)"
proof -
  have k: "''Message_sentiment_123'' \<noteq> []" by simp
  from cached_text_outlives_provider_change [OF k demo_first_call, of "''openai''" server_error]
       demo_first_call
  show ?thesis by simp
qed

end
